theory Spec2Isabelle
  imports Complex_Main "HOL-Library.Sublist" "HOL-Library.AList" "HOL-Library.Product_Lexorder"
begin

section \<open>Values, records and tables\<close>

text \<open>
  The dashboard reads three collections as JSON arrays of objects and loads each into a
  pandas DataFrame. A cell of such a table is a JSON value. Timestamps arrive as ISO-8601
  strings and are parsed by \<^verbatim>\<open>pd.to_datetime\<close>, which is not part of the repository:
  \<open>VStamp t\<close> stands for a timestamp, \<open>t\<close> seconds after the epoch (in a raw record, the
  string that parses to it), and \<open>VStr s\<close> for any other string. \<open>VNull\<close> is a missing
  value (\<^verbatim>\<open>None\<close>, \<^verbatim>\<open>NaN\<close>, \<^verbatim>\<open>NaT\<close>). Numbers are integers; floating point is outside the
  model.
\<close>

datatype val =
    VNull
  | VBool bool
  | VInt int
  | VStr string
  | VStamp int
  | VDict "(string \<times> val) list"
  | VList "val list"

type_synonym row = "(string \<times> val) list"

text \<open>
  A record is a JSON object: a list of members with distinct names, read by name. A table
  has its column names and its records; a record that lacks a column holds the missing
  value there.
\<close>

record frame =
  columns :: "string list"
  rows :: "row list"

definition cell :: "row \<Rightarrow> string \<Rightarrow> val" where
  "cell r c = (case map_of r c of None \<Rightarrow> VNull | Some v \<Rightarrow> v)"

text \<open>
  \<^verbatim>\<open>pd.DataFrame(data)\<close>: the columns are the member names that occur in the records, in
  the order of their first occurrence.
\<close>

definition DataFrame :: "row list \<Rightarrow> frame" where
  "DataFrame data =
     \<lparr>columns = rev (remdups (rev (concat (map (map fst) data)))), rows = data\<rparr>"

text \<open>\<^verbatim>\<open>df.empty\<close>: no record, or no column.\<close>

definition df_empty :: "frame \<Rightarrow> bool" where
  "df_empty df = (rows df = [] \<or> columns df = [])"

text \<open>\<^verbatim>\<open>df[c] = ...\<close> with one value for each record.\<close>

definition assign :: "string \<Rightarrow> (row \<Rightarrow> val) \<Rightarrow> frame \<Rightarrow> frame" where
  "assign c f df =
     \<lparr>columns = (if c \<in> set (columns df) then columns df else columns df @ [c]),
      rows = map (\<lambda>r. AList.update c (f r) r) (rows df)\<rparr>"

text \<open>\<^verbatim>\<open>df[mask]\<close>: the records where the mask holds, the columns unchanged.\<close>

definition select :: "(row \<Rightarrow> bool) \<Rightarrow> frame \<Rightarrow> frame" where
  "select p df = df\<lparr>rows := filter p (rows df)\<rparr>"

datatype exn =
    RequestException string
  | HTTPError nat
  | BodyError
  | IndexError
  | KeyError
  | TypeError
  | ValueError
  | ZeroDivisionError

text \<open>\<^verbatim>\<open>df[c].iloc[0]\<close> raises on a table without records.\<close>

definition iloc0 :: "frame \<Rightarrow> string \<Rightarrow> exn + val" where
  "iloc0 df c = (case rows df of [] \<Rightarrow> Inl IndexError | r # _ \<Rightarrow> Inr (cell r c))"



text \<open>
  What the page shows besides its charts: \<^verbatim>\<open>st.error\<close>, \<^verbatim>\<open>st.warning\<close> and \<^verbatim>\<open>st.info\<close>.
  An error message that ends in \<^verbatim>\<open>str(e)\<close> carries the exception; the info line carries
  the timestamp whose date it prints.
\<close>

datatype ui_msg =
    St_error string "exn option"
  | St_warning string
  | St_info string int

section \<open>Remote collection fetcher\<close>

text \<open>
  \<^verbatim>\<open>fetch_from_directus\<close> builds the query for the collection and sends it. The reply is
  the input of the model: \<^verbatim>\<open>requests.get\<close> raises (no reply), or there is a response with
  a status code and a body. \<^verbatim>\<open>raise_for_status\<close> raises on the status codes 400 to 599;
  \<^verbatim>\<open>response.json()["data"]\<close> raises unless the body is a JSON object with a member
  \<^verbatim>\<open>data\<close>. Every exception is caught: an error is shown and the empty table returned.
\<close>

datatype body = Undecodable | Data "row list"

datatype reply = No_reply string | Response nat body

definition raise_for_status :: "nat \<Rightarrow> exn + unit" where
  "raise_for_status status =
     (if 400 \<le> status \<and> status < 600 then Inl (HTTPError status) else Inr ())"

definition fetch_failed :: "string \<Rightarrow> exn \<Rightarrow> ui_msg list \<times> frame" where
  "fetch_failed collection_name e =
     ([St_error (''Failed to fetch '' @ collection_name @ '' data: '') (Some e)],
      DataFrame [])"

definition fetch_from_directus :: "string \<Rightarrow> reply \<Rightarrow> ui_msg list \<times> frame" where
  "fetch_from_directus collection_name rp =
     (case rp of
        No_reply m \<Rightarrow> fetch_failed collection_name (RequestException m)
      | Response status b \<Rightarrow>
          (case raise_for_status status of
             Inl e \<Rightarrow> fetch_failed collection_name e
           | Inr _ \<Rightarrow>
               (case b of
                  Undecodable \<Rightarrow> fetch_failed collection_name BodyError
                | Data data \<Rightarrow> ([], DataFrame data))))"

section \<open>Field normalizer: the user's email\<close>

text \<open>
  Lines 88 to 106 of \<^verbatim>\<open>load_bookings_data\<close> and lines 128 to 146 of \<^verbatim>\<open>load_coupons_data\<close>
  are the same code on two tables. The test for the flat column \<^verbatim>\<open>user.email\<close> is the
  \<^verbatim>\<open>elif\<close> of the test \<^verbatim>\<open>'user' in df.columns\<close>: it is reached only when the table has
  no column \<^verbatim>\<open>user\<close>. The branch for a user that is a bare id is \<^verbatim>\<open>pass\<close>.
\<close>

fun is_dict_with_email :: "val \<Rightarrow> bool" where
  "is_dict_with_email (VDict d) = (''email'' \<in> fst ` set d)"
| "is_dict_with_email _ = False"

text \<open>\<^verbatim>\<open>lambda x: x.get('email') if isinstance(x, dict) else None\<close>\<close>

fun get_email :: "val \<Rightarrow> val" where
  "get_email (VDict d) = cell d ''email''"
| "get_email _ = VNull"

definition resolve_user_email :: "frame \<Rightarrow> exn + (bool \<times> frame)" where
  "resolve_user_email df =
     (case (if ''user'' \<in> set (columns df) then
              (case iloc0 df ''user'' of
                 Inl e \<Rightarrow> Inl e
               | Inr first \<Rightarrow>
                   if is_dict_with_email first
                   then Inr (True, assign ''user_email'' (\<lambda>r. get_email (cell r ''user'')) df)
                   else Inr (False, df))
            else if ''user.email'' \<in> set (columns df)
            then Inr (True, assign ''user_email'' (\<lambda>r. cell r ''user.email'') df)
            else Inr (False, df)) of
        Inl e \<Rightarrow> Inl e
      | Inr (user_email_found, df1) \<Rightarrow>
          Inr (user_email_found,
               if \<not> user_email_found
               then assign ''user_email'' (\<lambda>r. VStr ''unknown'') df1
               else df1))"

text \<open>
  The bookings: without the operator's own account (when an email was found) and without
  the bookings that have a status. An exception leaves the table as it was fetched.
\<close>

definition normalize_bookings :: "frame \<Rightarrow> frame" where
  "normalize_bookings df =
     (if \<not> df_empty df then
        (case resolve_user_email df of
           Inl e \<Rightarrow> df
         | Inr (user_email_found, df1) \<Rightarrow>
             let df2 = (if user_email_found
                        then select (\<lambda>r. cell r ''user_email''
                                            \<noteq> VStr ''frej.andreassen@gmail.com'') df1
                        else df1)
             in if ''status'' \<in> set (columns df2)
                then select (\<lambda>r. cell r ''status'' = VNull) df2
                else df2)
      else df)"

definition load_bookings_data :: "reply \<Rightarrow> ui_msg list \<times> frame" where
  "load_bookings_data rp =
     (let (msgs, df) = fetch_from_directus ''bookings'' rp in (msgs, normalize_bookings df))"

text \<open>
  The coupons: \<^verbatim>\<open>~coupons_df['user_email'].str.lower().str.contains('|'.join(excluded_users))\<close>.
  On the object columns of pandas 1 and 2, for which the dashboard was written, the
  string methods give the missing value for a cell that is not a string, and \<^verbatim>\<open>~\<close>
  raises on a mask with a missing value (\<^verbatim>\<open>bad operand type for unary ~\<close>); a column
  without any string makes the accessor \<^verbatim>\<open>.str\<close> itself raise. Whatever the exception,
  it is caught by \<^verbatim>\<open>except Exception: pass\<close> and dropped, and the table, with its
  \<^verbatim>\<open>user_email\<close>, is returned unfiltered: the model records only that the statement
  raised (\<open>None\<close>). Lower case is taken on the letters A to Z, which is all the fragments
  can match.
\<close>

definition excluded_users :: "string list" where
  "excluded_users = [''frej'', ''andre'', ''oscar'', ''charl'', ''jenny'']"

definition lower_char :: "char \<Rightarrow> char" where
  "lower_char c =
     (case map_of (zip ''ABCDEFGHIJKLMNOPQRSTUVWXYZ'' ''abcdefghijklmnopqrstuvwxyz'') c of
        None \<Rightarrow> c | Some l \<Rightarrow> l)"

fun str_contains :: "string \<Rightarrow> string \<Rightarrow> bool" where
  "str_contains frag [] = (frag = [])"
| "str_contains frag (c # cs) = (prefix frag (c # cs) \<or> str_contains frag cs)"

definition is_excluded :: "string \<Rightarrow> bool" where
  "is_excluded s = list_ex (\<lambda>frag. str_contains frag (map lower_char s)) excluded_users"

text \<open>A timestamp is a string of digits and punctuation: it holds no fragment.\<close>

fun lower_contains :: "val \<Rightarrow> bool option" where
  "lower_contains (VStr s) = Some (is_excluded s)"
| "lower_contains (VStamp t) = Some False"
| "lower_contains _ = None"

definition invert_mask :: "bool option list \<Rightarrow> bool list option" where
  "invert_mask m = (if None \<in> set m then None else Some (map (\<lambda>b. b = Some False) m))"

definition exclude_staff :: "frame \<Rightarrow> frame option" where
  "exclude_staff df =
     (case invert_mask (map (\<lambda>r. lower_contains (cell r ''user_email'')) (rows df)) of
        None \<Rightarrow> None
      | Some keep \<Rightarrow> Some (df\<lparr>rows := map fst (filter snd (zip (rows df) keep))\<rparr>))"

definition normalize_coupons :: "frame \<Rightarrow> frame" where
  "normalize_coupons coupons_df =
     (if \<not> df_empty coupons_df then
        (case resolve_user_email coupons_df of
           Inl e \<Rightarrow> coupons_df
         | Inr (user_email_found, df1) \<Rightarrow>
             if user_email_found
             then (case exclude_staff df1 of None \<Rightarrow> df1 | Some df2 \<Rightarrow> df2)
             else df1)
      else coupons_df)"

definition load_coupons_data :: "reply \<Rightarrow> ui_msg list \<times> frame" where
  "load_coupons_data rp =
     (let (msgs, df) = fetch_from_directus ''coupons'' rp in (msgs, normalize_coupons df))"


text \<open>
  The resolution order as the specification words it, for comparison: the flat column is
  tried whenever the first strategy does not apply.
\<close>

definition spec_resolve_user_email :: "frame \<Rightarrow> exn + (bool \<times> frame)" where
  "spec_resolve_user_email df =
     (if ''user'' \<in> set (columns df) \<and> (case iloc0 df ''user'' of
                                              Inl e \<Rightarrow> False | Inr first \<Rightarrow> is_dict_with_email first)
      then Inr (True, assign ''user_email'' (\<lambda>r. get_email (cell r ''user'')) df)
      else if ''user.email'' \<in> set (columns df)
      then Inr (True, assign ''user_email'' (\<lambda>r. cell r ''user.email'') df)
      else Inr (False, assign ''user_email'' (\<lambda>r. VStr ''unknown'') df))"

section \<open>Loading the three tables\<close>



section \<open>Timestamps\<close>








section \<open>Feature derivation: length of a slot\<close>








section \<open>Field normalizer: the slot of a booking\<close>







fun is_dict :: "val \<Rightarrow> bool" where
  "is_dict (VDict d) = True"
| "is_dict _ = False"








section \<open>Feature derivation: the bookings\<close>





section \<open>The slots: capacity and used seats\<close>



section \<open>Metrics aggregator\<close>




























section \<open>The page\<close>








section \<open>Tables: reading a cell after an assignment\<close>

lemma cell_update_same: "cell (AList.update c v r) c = v"
  by (simp add: cell_def update_conv')


lemma rows_assign: "rows (assign c f df) = map (\<lambda>r. AList.update c (f r) r) (rows df)"
  by (simp add: assign_def)


lemma assign_col_values: "map (\<lambda>r. cell r c) (rows (assign c f df)) = map f (rows df)"
  by (simp add: rows_assign cell_update_same o_def)

section \<open>Properties of the slot length category\<close>













section \<open>Properties of the email resolution\<close>

text \<open>
  C4 (as stated, refuted). A table with a column \<^verbatim>\<open>user\<close> that holds bare ids and with a
  flat column \<^verbatim>\<open>user.email\<close>: the first strategy does not apply, and the claim's second
  step would take the flat column. The code does not look at the flat column, because
  the table has a column \<^verbatim>\<open>user\<close>, and sets the sentinel.
\<close>

theorem resolve_user_email_flat_column_skipped:
  "resolve_user_email (DataFrame [[(''user'', VInt 7), (''user.email'', VStr ''a@b.se'')]])
     = Inr (False, \<lparr>columns = [''user'', ''user.email'', ''user_email''],
                    rows = [[(''user'', VInt 7), (''user.email'', VStr ''a@b.se''),
                             (''user_email'', VStr ''unknown'')]]\<rparr>)
   \<and> spec_resolve_user_email (DataFrame [[(''user'', VInt 7), (''user.email'', VStr ''a@b.se'')]])
     = Inr (True, \<lparr>columns = [''user'', ''user.email'', ''user_email''],
                   rows = [[(''user'', VInt 7), (''user.email'', VStr ''a@b.se''),
                            (''user_email'', VStr ''a@b.se'')]]\<rparr>)"
  by (simp add: DataFrame_def resolve_user_email_def spec_resolve_user_email_def iloc0_def
      cell_def assign_def)

text \<open>
  C4 (amended). On a table that is not empty the resolution never raises, and it goes in
  this order: (1) if the table has a column \<^verbatim>\<open>user\<close> and the user of the first record is
  an object with a member \<^verbatim>\<open>email\<close>, the emails are extracted record by record, null
  for a user that is not an object; (2) if the table has no column \<^verbatim>\<open>user\<close> at all and
  has a flat column \<^verbatim>\<open>user.email\<close>, that column is used; (3) in every other case, also
  when a column \<^verbatim>\<open>user\<close> of another shape stands beside a flat column, \<^verbatim>\<open>user_email\<close> is
  the sentinel \<open>unknown\<close> for every record. The flag \<^verbatim>\<open>user_email_found\<close> is set in the
  cases (1) and (2) only.
\<close>

theorem resolve_user_email_order:
  assumes "\<not> df_empty df"
  shows "\<exists>found df'. resolve_user_email df = Inr (found, df')
     \<and> (found \<longleftrightarrow> (if ''user'' \<in> set (columns df)
                      then is_dict_with_email (cell (hd (rows df)) ''user'')
                      else ''user.email'' \<in> set (columns df)))
     \<and> map (\<lambda>r. cell r ''user_email'') (rows df') =
         (if ''user'' \<in> set (columns df) \<and> is_dict_with_email (cell (hd (rows df)) ''user'')
          then map (\<lambda>r. get_email (cell r ''user'')) (rows df)
          else if ''user'' \<notin> set (columns df) \<and> ''user.email'' \<in> set (columns df)
          then map (\<lambda>r. cell r ''user.email'') (rows df)
          else map (\<lambda>r. VStr ''unknown'') (rows df))
     \<and> (\<forall>v. \<not> is_dict v \<longrightarrow> get_email v = VNull)"
proof -
  from assms obtain r rs where rs: "rows df = r # rs"
    by (cases "rows df") (auto simp add: df_empty_def)
  then have i: "iloc0 df ''user'' = Inr (cell r ''user'')" by (simp add: iloc0_def)
  have g: "\<forall>v. \<not> is_dict v \<longrightarrow> get_email v = VNull"
  proof (intro allI impI)
    fix v assume "\<not> is_dict v"
    then show "get_email v = VNull" by (cases v) simp_all
  qed
  show ?thesis unfolding resolve_user_email_def i
    by (simp add: rs assign_col_values g del: map_eq_conv)
qed

theorem resolve_user_email_order_witness:
  "\<not> df_empty (DataFrame [[(''user'', VDict [(''email'', VStr ''a@b.se'')])], [(''user'', VInt 7)]])
   \<and> (\<exists>df'. resolve_user_email
               (DataFrame [[(''user'', VDict [(''email'', VStr ''a@b.se'')])], [(''user'', VInt 7)]])
             = Inr (True, df')
           \<and> map (\<lambda>r. cell r ''user_email'') (rows df') = [VStr ''a@b.se'', VNull])"
  using resolve_user_email_order
    [of "DataFrame [[(''user'', VDict [(''email'', VStr ''a@b.se'')])], [(''user'', VInt 7)]]"]
  by (auto simp add: DataFrame_def df_empty_def cell_def)

section \<open>Properties of the coupon filter\<close>












section \<open>Properties of the degraded mode\<close>




section \<open>Determinism of the normalization\<close>

text \<open>
  C10. The normalization of the bookings and of the coupons is a function of the raw
  records (and the loaders are functions of the reply): two runs over equal raw inputs
  give equal tables and equal messages. Nothing else, no clock, no random choice and no
  state kept between runs, enters these functions.
\<close>

theorem normalization_deterministic:
  assumes "raw = raw'" and "rp = rp'"
  shows "normalize_bookings raw = normalize_bookings raw'
       \<and> normalize_coupons raw = normalize_coupons raw'
       \<and> load_bookings_data rp = load_bookings_data rp'
       \<and> load_coupons_data rp = load_coupons_data rp'"
  using assms by simp

theorem normalization_deterministic_witness:
  "normalize_bookings (DataFrame [[(''user'', VInt 7)]]) = normalize_bookings (DataFrame [[(''user'', VInt 7)]])
   \<and> load_coupons_data (Response 200 (Data [[(''user'', VInt 7)]]))
       = load_coupons_data (Response 200 (Data [[(''user'', VInt 7)]]))"
  using normalization_deterministic [of "DataFrame [[(''user'', VInt 7)]]" "DataFrame [[(''user'', VInt 7)]]"
               "Response 200 (Data [[(''user'', VInt 7)]])" "Response 200 (Data [[(''user'', VInt 7)]])"]
  by simp

section \<open>Properties of the fetcher and of the loading stage\<close>






end
